theory Spec2Isabelle
  imports Complex_Main "HOL-Library.Sublist" "HOL-Library.Char_ord"
begin

section \<open>The Plugwise client of \<^verbatim>\<open>climate.py\<close>\<close>

subsection \<open>Document trees\<close>

text \<open>
  Python strings are lists of characters here. The client compares strings, joins them
  and looks for ASCII characters in them, and nothing else.
\<close>

text \<open>
  An \<^verbatim>\<open>Element\<close> of \<^verbatim>\<open>xml.etree\<close>: its tag, its attribute dictionary (in document
  order), its text, its tail (the text between its end tag and the next sibling) and its
  children. Text and tail are \<^verbatim>\<open>None\<close> when there is none.
\<close>

datatype element = Element (tag: string) (attrib: "(string \<times> string) list")
  (etext: "string option") (etail: "string option") (children: "element list")

text \<open>\<^verbatim>\<open>if t: yield t\<close>: a text is produced when it is neither \<^verbatim>\<open>None\<close> nor empty.\<close>

definition if_text :: "string option \<Rightarrow> string list" where
  "if_text t = (case t of None \<Rightarrow> [] | Some s \<Rightarrow> if s = [] then [] else [s])"

text \<open>
  \<^verbatim>\<open>Element.itertext\<close>: the element's text, then for every child its own
  \<^verbatim>\<open>itertext\<close> followed by its tail.
\<close>

fun itertext :: "element \<Rightarrow> string list" where
  "itertext (Element t a tx ta cs) =
     if_text tx @ concat (map (\<lambda>e. itertext e @ if_text (etail e)) cs)"

subsection \<open>Path queries\<close>

text \<open>
  The steps of the \<^verbatim>\<open>ElementPath\<close> expressions the client uses: a child tag
  \<^verbatim>\<open>name\<close>, the wildcard \<^verbatim>\<open>*\<close>, the predicate \<^verbatim>\<open>[@key='value']\<close> and the predicate
  \<^verbatim>\<open>[tag='value']\<close>. Each step maps the elements selected so far to the next
  selection, in document order:
  \<^item> \<^verbatim>\<open>name\<close>: the children with that tag;
  \<^item> \<^verbatim>\<open>*\<close>: all children;
  \<^item> \<^verbatim>\<open>[@key='value']\<close>: the elements whose \<^verbatim>\<open>get(key)\<close> equals the value;
  \<^item> \<^verbatim>\<open>[tag='value']\<close>: the elements with a child of that tag whose joined
    \<^verbatim>\<open>itertext\<close> equals the value.
\<close>

datatype step = Child string | Star | Attr_eq string string | Tag_eq string string

fun select :: "step \<Rightarrow> element list \<Rightarrow> element list" where
  "select (Child t) result = [e. elem \<leftarrow> result, e \<leftarrow> children elem, tag e = t]"
| "select Star result = [e. elem \<leftarrow> result, e \<leftarrow> children elem]"
| "select (Attr_eq key v) result = [elem \<leftarrow> result. map_of (attrib elem) key = Some v]"
| "select (Tag_eq t v) result =
     [elem \<leftarrow> result. list_ex (\<lambda>e. tag e = t \<and> concat (itertext e) = v) (children elem)]"

text \<open>
  \<^verbatim>\<open>iterfind\<close> starts from the element itself and applies the steps in turn;
  \<^verbatim>\<open>find\<close> is its first result, or \<^verbatim>\<open>None\<close>.
\<close>

definition iterfind :: "element \<Rightarrow> step list \<Rightarrow> element list" where
  "iterfind elem path = foldl (\<lambda>result sel. select sel result) [elem] path"

definition elem_find :: "element \<Rightarrow> step list \<Rightarrow> element option" where
  "elem_find elem path = (case iterfind elem path of [] \<Rightarrow> None | e # _ \<Rightarrow> Some e)"

subsection \<open>Exceptions and library functions\<close>

text \<open>
  The exceptions that leave the client's methods. \<open>ResponseError\<close> stands for whatever
  \<^verbatim>\<open>await resp.text()\<close> raises when the body cannot be read or decoded.
\<close>

datatype py_error = AttributeError | KeyError | TypeError | ValueError | ParseError
  | SyntaxError | ResponseError

text \<open>
  Library functions the client calls and this development does not define:
  \<^item> \<open>float_of_str\<close>: the value of \<^verbatim>\<open>float(s)\<close> for a non-empty string, \<^verbatim>\<open>None\<close> when it
    raises \<^verbatim>\<open>ValueError\<close>;
  \<^item> \<open>fromstring\<close>: \<^verbatim>\<open>Etree.fromstring\<close>, \<^verbatim>\<open>None\<close> when it raises \<^verbatim>\<open>ParseError\<close>;
  \<^item> \<open>find_other\<close>: \<^verbatim>\<open>Element.find\<close> on a path string that is outside the four
    step forms above.
\<close>

record 'f pylib =
  float_of_str :: "string \<Rightarrow> 'f option"
  fromstring :: "string \<Rightarrow> element option"
  find_other :: "element \<Rightarrow> string \<Rightarrow> py_error + element option"

text \<open>
  \<^verbatim>\<open>float(measurement)\<close>: \<^verbatim>\<open>TypeError\<close> on \<^verbatim>\<open>None\<close>, \<^verbatim>\<open>ValueError\<close> on the empty string
  and on every string that is not a number.
\<close>

definition py_float :: "'f pylib \<Rightarrow> string option \<Rightarrow> py_error + 'f" where
  "py_float L m =
     (case m of
        None \<Rightarrow> Inl TypeError
      | Some t \<Rightarrow>
          if t = [] then Inl ValueError
          else (case float_of_str L t of None \<Rightarrow> Inl ValueError | Some v \<Rightarrow> Inr v))"

text \<open>\<^verbatim>\<open>sub in s\<close> on strings: \<open>sub\<close> occurs in \<open>s\<close> as a contiguous run.\<close>

fun py_in :: "string \<Rightarrow> string \<Rightarrow> bool" where
  "py_in sub [] = (sub = [])"
| "py_in sub (c # cs) = (prefix sub (c # cs) \<or> py_in sub cs)"

subsection \<open>The client and the network\<close>

text \<open>
  The fields of \<^verbatim>\<open>Plugwise\<close> that the methods below read or write. \<open>endpoint\<close> is
  \<^verbatim>\<open>"http://" + host + ":" + str(port)\<close> as the constructor built it; a time is a
  \<^verbatim>\<open>datetime\<close> counted in microseconds.
\<close>

record plugwise =
  endpoint :: string
  legacy_anna :: bool
  throttle_time :: "int option"
  domain_objects :: "element option"

text \<open>
  The outcome of one \<^verbatim>\<open>websession.get\<close> under \<^verbatim>\<open>async_timeout\<close>: the timeout expires,
  \<^verbatim>\<open>aiohttp\<close> raises a \<^verbatim>\<open>ClientError\<close>, or a response arrives. The body of a response
  is read afterwards by \<^verbatim>\<open>resp.text()\<close>, outside the \<^verbatim>\<open>try\<close> block: \<open>Some body\<close>, or
  \<open>None\<close> when that read raises.

  The network is the sequence of these outcomes, one per GET in the order the client
  issues them, together with the URLs requested so far.
\<close>

datatype attempt = TimeoutError | ClientError | Response "string option"

record world =
  responses :: "nat \<Rightarrow> attempt"
  sent :: "string list"

definition PLUGWISE_PING_ENDPOINT :: string where
  "PLUGWISE_PING_ENDPOINT = ''/ping''"

definition PLUGWISE_DOMAIN_OBJECTS_ENDPOINT :: string where
  "PLUGWISE_DOMAIN_OBJECTS_ENDPOINT = ''/core/domain_objects''"

text \<open>\<^verbatim>\<open>dt.timedelta(seconds=2)\<close>, in microseconds.\<close>

definition MIN_TIME_BETWEEN_UPDATES :: int where
  "MIN_TIME_BETWEEN_UPDATES = 2000000"

subsection \<open>Transport\<close>

text \<open>
  \<^verbatim>\<open>connect\<close>: a timeout or a \<^verbatim>\<open>ClientError\<close> of the GET is retried while \<^verbatim>\<open>retry\<close>
  is at least 1, then answered with \<^verbatim>\<open>False\<close>. The body of a response is read and
  searched for \<^verbatim>\<open>error\<close>.
\<close>

function connect :: "plugwise \<Rightarrow> world \<Rightarrow> int \<Rightarrow> (py_error + bool) \<times> world" where
  "connect s w retry =
     (let url = endpoint s @ PLUGWISE_PING_ENDPOINT;
          w' = w\<lparr>sent := sent w @ [url]\<rparr>
      in case responses w (length (sent w)) of
           TimeoutError \<Rightarrow>
             if retry < 1 then (Inr False, w') else connect s w' (retry - 1)
         | ClientError \<Rightarrow>
             if retry < 1 then (Inr False, w') else connect s w' (retry - 1)
         | Response resp \<Rightarrow>
             (case resp of
                None \<Rightarrow> (Inl ResponseError, w')
              | Some result \<Rightarrow>
                  if \<not> py_in ''error'' result then (Inr False, w') else (Inr True, w')))"
  by pat_completeness auto
termination
  by (relation "measure (\<lambda>(s, w, retry). nat retry)") auto

text \<open>
  \<^verbatim>\<open>re.sub(r"&([^a-zA-Z#])", r"&amp;\1", xmldata)\<close>.
  The character class \<^verbatim>\<open>[^a-zA-Z#]\<close> accepts every character (a newline too) that is
  neither an ASCII letter nor \<^verbatim>\<open>#\<close>; \<open>entity_start\<close> is its complement.
\<close>

definition entity_start :: "char \<Rightarrow> bool" where
  "entity_start c \<longleftrightarrow>
     (CHR ''a'' \<le> c \<and> c \<le> CHR ''z'') \<or> (CHR ''A'' \<le> c \<and> c \<le> CHR ''Z'') \<or> c = CHR ''#''"

text \<open>
  \<^verbatim>\<open>re.sub\<close> scans from the left and replaces non-overlapping matches. A match is
  an ampersand together with the character after it, so the scan resumes behind that
  character; an ampersand with nothing after it matches nothing.
\<close>

fun escape_illegal_xml_characters :: "string \<Rightarrow> string" where
  "escape_illegal_xml_characters [] = []"
| "escape_illegal_xml_characters [c] = [c]"
| "escape_illegal_xml_characters (c # d # cs) =
     (if c = CHR ''&'' \<and> \<not> entity_start d
      then ''&amp;'' @ d # escape_illegal_xml_characters cs
      else c # escape_illegal_xml_characters (d # cs))"

definition errorCode_0 :: string where
  \<open>errorCode_0 = ''{"errorCode":0}''\<close>

text \<open>
  \<^verbatim>\<open>request\<close>: only a timeout is retried; a \<^verbatim>\<open>ClientError\<close> gives \<^verbatim>\<open>None\<close> at once.
  An empty body and the body \<^verbatim>\<open>{"errorCode":0}\<close> give \<^verbatim>\<open>None\<close>; any other body is
  sanitised and parsed.
\<close>

function request ::
  "'f pylib \<Rightarrow> plugwise \<Rightarrow> world \<Rightarrow> string \<Rightarrow> int \<Rightarrow> (py_error + element option) \<times> world" where
  "request L s w command retry =
     (let url = endpoint s @ command;
          w' = w\<lparr>sent := sent w @ [url]\<rparr>
      in case responses w (length (sent w)) of
           TimeoutError \<Rightarrow>
             if retry < 1 then (Inr None, w') else request L s w' command (retry - 1)
         | ClientError \<Rightarrow> (Inr None, w')
         | Response resp \<Rightarrow>
             (case resp of
                None \<Rightarrow> (Inl ResponseError, w')
              | Some result \<Rightarrow>
                  if result = [] \<or> result = errorCode_0 then (Inr None, w')
                  else (case fromstring L (escape_illegal_xml_characters result) of
                          None \<Rightarrow> (Inl ParseError, w')
                        | Some tree \<Rightarrow> (Inr (Some tree), w'))))"
  by pat_completeness auto
termination
  by (relation "measure (\<lambda>(L, s, w, command, retry). nat retry)") auto

declare connect.simps [simp del] request.simps [simp del]

subsection \<open>The cached snapshot\<close>

text \<open>
  \<^verbatim>\<open>self._domain_objects = await self.request(PLUGWISE_DOMAIN_OBJECTS_ENDPOINT)\<close>, with
  the default \<^verbatim>\<open>retry=3\<close>. The assignment happens whenever \<^verbatim>\<open>request\<close> returns, and
  not when it raises.
\<close>

definition update_domain_objects ::
  "'f pylib \<Rightarrow> plugwise \<times> world \<Rightarrow> (py_error + element option) \<times> plugwise \<times> world" where
  "update_domain_objects L = (\<lambda>(s, w).
     case request L s w PLUGWISE_DOMAIN_OBJECTS_ENDPOINT 3 of
       (Inl e, w') \<Rightarrow> (Inl e, s, w')
     | (Inr r, w') \<Rightarrow> (Inr r, s\<lparr>domain_objects := r\<rparr>, w'))"

text \<open>
  \<^verbatim>\<open>throttle_update_domain_objects\<close> reads the clock up to twice: \<open>now1\<close> is the reading
  compared with the stored time, \<open>now2\<close> the one stored before the refresh.
\<close>

definition throttle_update_domain_objects ::
  "'f pylib \<Rightarrow> int \<Rightarrow> int \<Rightarrow> plugwise \<times> world \<Rightarrow> (py_error + unit) \<times> plugwise \<times> world" where
  "throttle_update_domain_objects L now1 now2 = (\<lambda>(s, w).
     if (case throttle_time s of
           None \<Rightarrow> False
         | Some t \<Rightarrow> now1 - t < MIN_TIME_BETWEEN_UPDATES)
     then (Inr (), s, w)
     else (case update_domain_objects L (s\<lparr>throttle_time := Some now2\<rparr>, w) of
             (Inl e, s', w') \<Rightarrow> (Inl e, s', w')
           | (Inr r, s', w') \<Rightarrow> (Inr (), s', w')))"

subsection \<open>Queries on the snapshot\<close>

text \<open>
  Two locators are built by string concatenation around a value. The value stands
  between apostrophes, so when it holds no apostrophe the path is the one with the
  predicate \<^verbatim>\<open>[@key='value']\<close>. When it does, the string is another path (or none), and
  the answer is the library's: \<open>find_other\<close>.
\<close>

definition locate ::
  "'f pylib \<Rightarrow> element \<Rightarrow> string \<Rightarrow> string \<Rightarrow> step list \<Rightarrow> py_error + element option" where
  "locate L xmldata inserted locator path =
     (if CHR 0x27 \<in> set inserted then find_other L xmldata locator
      else Inr (elem_find xmldata path))"

definition get_point_log_id ::
  "'f pylib \<Rightarrow> element option \<Rightarrow> string \<Rightarrow> py_error + string option" where
  "get_point_log_id L xmldata log_type =
     (case xmldata of
        None \<Rightarrow> Inl AttributeError
      | Some x \<Rightarrow>
          (case locate L x log_type
                  (''module/services/*[@log_type='' @ [CHR 0x27] @ log_type @ [CHR 0x27]
                     @ '']/functionalities/point_log'')
                  [Child ''module'', Child ''services'', Star, Attr_eq ''log_type'' log_type,
                   Child ''functionalities'', Child ''point_log''] of
             Inl e \<Rightarrow> Inl e
           | Inr None \<Rightarrow> Inr None
           | Inr (Some pl) \<Rightarrow>
               (case map_of (attrib pl) ''id'' of
                  None \<Rightarrow> Inl KeyError
                | Some i \<Rightarrow> Inr (Some i))))"

definition get_measurement_from_point_log ::
  "'f pylib \<Rightarrow> element option \<Rightarrow> string \<Rightarrow> py_error + string option" where
  "get_measurement_from_point_log L xmldata point_log_id =
     (case xmldata of
        None \<Rightarrow> Inl AttributeError
      | Some x \<Rightarrow>
          (case locate L x point_log_id
                  (''*/logs/point_log[@id='' @ [CHR 0x27] @ point_log_id @ [CHR 0x27]
                     @ '']/period/measurement'')
                  [Star, Child ''logs'', Child ''point_log'', Attr_eq ''id'' point_log_id,
                   Child ''period'', Child ''measurement''] of
             Inl e \<Rightarrow> Inl e
           | Inr None \<Rightarrow> Inr None
           | Inr (Some m) \<Rightarrow> Inr (etext m)))"

definition get_current_preset :: "plugwise \<Rightarrow> py_error + string option" where
  "get_current_preset s =
     (if legacy_anna s then
        (case domain_objects s of
           None \<Rightarrow> Inl AttributeError
         | Some x \<Rightarrow>
             (case elem_find x [Child ''rule'', Tag_eq ''active'' ''true'',
                                Child ''directives'', Child ''when'', Child ''then''] of
                None \<Rightarrow> Inr (Some ''none'')
              | Some active_rule \<Rightarrow>
                  (case map_of (attrib active_rule) ''icon'' of
                     None \<Rightarrow> Inr (Some ''none'')
                   | Some icon \<Rightarrow> Inr (Some icon))))
      else
        (case domain_objects s of
           None \<Rightarrow> Inl AttributeError
         | Some x \<Rightarrow>
             (case elem_find x [Child ''appliance'', Tag_eq ''type'' ''thermostat'',
                                Child ''logs'', Child ''point_log'',
                                Tag_eq ''type'' ''preset_state'',
                                Child ''period'', Child ''measurement''] of
                None \<Rightarrow> Inl AttributeError
              | Some m \<Rightarrow> Inr (etext m))))"

text \<open>
  \<^verbatim>\<open>if point_log_id:\<close> and \<^verbatim>\<open>if measurement:\<close> hold for a string that is neither
  \<^verbatim>\<open>None\<close> nor empty.
\<close>

definition get_schedule_temperature :: "'f pylib \<Rightarrow> plugwise \<Rightarrow> py_error + 'f option" where
  "get_schedule_temperature L s =
     (case get_point_log_id L (domain_objects s) ''schedule_temperature'' of
        Inl e \<Rightarrow> Inl e
      | Inr None \<Rightarrow> Inr None
      | Inr (Some point_log_id) \<Rightarrow>
          if point_log_id = [] then Inr None
          else
            (case get_measurement_from_point_log L (domain_objects s) point_log_id of
               Inl e \<Rightarrow> Inl e
             | Inr None \<Rightarrow> Inr None
             | Inr (Some measurement) \<Rightarrow>
                 if measurement = [] then Inr None
                 else (case py_float L (Some measurement) of
                         Inl e \<Rightarrow> Inl e
                       | Inr v \<Rightarrow> Inr (Some v))))"

definition get_current_temperature :: "'f pylib \<Rightarrow> plugwise \<Rightarrow> py_error + 'f option" where
  "get_current_temperature L s =
     (case get_point_log_id L (domain_objects s) ''temperature'' of
        Inl e \<Rightarrow> Inl e
      | Inr None \<Rightarrow> Inr None
      | Inr (Some current_temp_point_log_id) \<Rightarrow>
          if current_temp_point_log_id = [] then Inr None
          else
            (case get_measurement_from_point_log L (domain_objects s)
                    current_temp_point_log_id of
               Inl e \<Rightarrow> Inl e
             | Inr measurement \<Rightarrow>
                 (case py_float L measurement of
                    Inl e \<Rightarrow> Inl e
                  | Inr v \<Rightarrow> Inr (Some v))))"

subsection \<open>The legacy preset, as the specification words it\<close>

text \<open>
  A rule is active when it is a \<^verbatim>\<open>rule\<close> element with an \<^verbatim>\<open>active\<close> child reading
  \<^verbatim>\<open>true\<close>. Its directives' \<^verbatim>\<open>then\<close> actions are the \<^verbatim>\<open>then\<close> elements under
  \<^verbatim>\<open>directives/when\<close>. \<open>active_then\<close> lists the \<^verbatim>\<open>then\<close> actions of the active rules of
  a snapshot, in document order.
\<close>

definition rule_active :: "element \<Rightarrow> bool" where
  "rule_active r \<longleftrightarrow>
     tag r = ''rule'' \<and>
     (\<exists>a \<in> set (children r). tag a = ''active'' \<and> concat (itertext a) = ''true'')"

definition then_directives :: "element \<Rightarrow> element list" where
  "then_directives r =
     [t. d \<leftarrow> children r, tag d = ''directives'', w \<leftarrow> children d, tag w = ''when'',
         t \<leftarrow> children w, tag t = ''then'']"

definition active_then :: "element \<Rightarrow> element list" where
  "active_then x = concat (map then_directives (filter rule_active (children x)))"

subsection \<open>Example inputs\<close>

text \<open>
  A library for the examples: \<open>decimal_value\<close> reads \<^verbatim>\<open>digits\<close> or \<^verbatim>\<open>digits.digits\<close> as
  the rational number it denotes. On \<^verbatim>\<open>19.5\<close> and \<^verbatim>\<open>21\<close>, which binary floating point
  represents exactly, this is the value of \<^verbatim>\<open>float\<close>. The parser of the examples knows
  one document, \<^verbatim>\<open><a/>\<close>.
\<close>

definition digit_of :: "char \<Rightarrow> nat option" where
  "digit_of c = (if CHR ''0'' \<le> c \<and> c \<le> CHR ''9'' then Some (of_char c - 48) else None)"

fun digits_val :: "nat \<Rightarrow> string \<Rightarrow> nat option" where
  "digits_val acc [] = Some acc"
| "digits_val acc (c # cs) =
     (case digit_of c of None \<Rightarrow> None | Some d \<Rightarrow> digits_val (10 * acc + d) cs)"

definition decimal_value :: "string \<Rightarrow> rat option" where
  "decimal_value s =
     (let ip = takeWhile (\<lambda>c. c \<noteq> CHR ''.'') s; rest = dropWhile (\<lambda>c. c \<noteq> CHR ''.'') s
      in if ip = [] then None
         else (case digits_val 0 ip of
                 None \<Rightarrow> None
               | Some i \<Rightarrow>
                   (case rest of
                      [] \<Rightarrow> Some (of_nat i)
                    | _ # fp \<Rightarrow>
                        if fp = [] then None
                        else (case digits_val 0 fp of
                                None \<Rightarrow> None
                              | Some f \<Rightarrow> Some (of_nat i + of_nat f / 10 ^ length fp)))))"

definition example_lib :: "rat pylib" where
  "example_lib =
     \<lparr>float_of_str = decimal_value,
      fromstring = (\<lambda>s. if s = ''<a/>'' then Some (Element ''a'' [] None None []) else None),
      find_other = (\<lambda>x p. Inl SyntaxError)\<rparr>"

definition client :: "element option \<Rightarrow> plugwise" where
  "client snapshot =
     \<lparr>endpoint = ''http://anna:80'', legacy_anna = False, throttle_time = None,
      domain_objects = snapshot\<rparr>"

definition legacy_client :: "element option \<Rightarrow> plugwise" where
  "legacy_client snapshot =
     \<lparr>endpoint = ''http://anna:80'', legacy_anna = True, throttle_time = None,
      domain_objects = snapshot\<rparr>"

text \<open>
  A module whose service of the given log type names a point log, and a thermostat
  appliance holding the point log of that type and id with one measurement.
\<close>

definition module_of :: "string \<Rightarrow> string \<Rightarrow> element" where
  "module_of log_type i =
     Element ''module'' [] None None
       [Element ''services'' [] None None
          [Element log_type [(''log_type'', log_type)] None None
             [Element ''functionalities'' [] None None
                [Element ''point_log'' [(''id'', i)] None None []]]]]"

definition appliance_of :: "string \<Rightarrow> string \<Rightarrow> string option \<Rightarrow> element" where
  "appliance_of log_type i m =
     Element ''appliance'' [] None None
       [Element ''type'' [] (Some ''thermostat'') None [],
        Element ''logs'' [] None None
          [Element ''point_log'' [(''id'', i), (''log_type'', log_type)] None None
             [Element ''type'' [] (Some log_type) None [],
              Element ''period'' [] None None [Element ''measurement'' [] m None []]]]]"

definition snapshot_appliance :: element where
  "snapshot_appliance =
     Element ''domain_objects'' [] None None
       [appliance_of ''temperature'' ''42'' (Some ''19.5'')]"

definition snapshot_42 :: element where
  "snapshot_42 =
     Element ''domain_objects'' [] None None
       [module_of ''temperature'' ''42'', appliance_of ''temperature'' ''42'' (Some ''19.5'')]"

definition snapshot_no_log :: element where
  "snapshot_no_log =
     Element ''domain_objects'' [] None None
       [module_of ''temperature'' ''42'', module_of ''schedule_temperature'' ''43'']"

definition snapshot_empty_id :: element where
  "snapshot_empty_id =
     Element ''domain_objects'' [] None None [module_of ''temperature'' []]"

definition snapshot_empty_id_log :: element where
  "snapshot_empty_id_log =
     Element ''domain_objects'' [] None None
       [module_of ''temperature'' [], appliance_of ''temperature'' [] (Some ''19.5'')]"

definition snapshot_two :: element where
  "snapshot_two =
     Element ''domain_objects'' [] None None
       [module_of ''temperature'' ''42'', module_of ''schedule_temperature'' ''43'',
        appliance_of ''temperature'' ''42'' (Some ''19.5''),
        appliance_of ''schedule_temperature'' ''43'' (Some ''21'')]"

definition rule_of :: "string \<Rightarrow> (string \<times> string) list \<Rightarrow> element" where
  "rule_of active icon =
     Element ''rule'' [] None None
       [Element ''active'' [] (Some active) None [],
        Element ''directives'' [] None None
          [Element ''when'' [] None None [Element ''then'' icon None None []]]]"

definition snapshot_rules :: element where
  "snapshot_rules =
     Element ''domain_objects'' [] None None
       [rule_of ''false'' [(''icon'', ''away'')], rule_of ''true'' [(''icon'', ''home'')]]"

definition snapshot_idle :: element where
  "snapshot_idle =
     Element ''domain_objects'' [] None None [rule_of ''false'' [(''icon'', ''away'')]]"

text \<open>A network that gives the listed outcomes and times out ever after.\<close>

definition world_of :: "attempt list \<Rightarrow> world" where
  "world_of as = \<lparr>responses = (\<lambda>n. if n < length as then as ! n else TimeoutError), sent = []\<rparr>"

definition world_retry :: world where
  "world_retry = world_of [TimeoutError, Response (Some ''<a/>'')]"

definition world_one_answer :: world where
  "world_one_answer = world_of [Response (Some ''<a/>'')]"

definition world_empty_body :: world where
  "world_empty_body = world_of [Response (Some [])]"

definition world_broken_body :: world where
  "world_broken_body = world_of [Response None]"

section \<open>Properties\<close>

subsection \<open>Auxiliary facts\<close>

lemmas eval_defs =
  get_current_temperature_def get_schedule_temperature_def get_point_log_id_def
  get_measurement_from_point_log_def locate_def elem_find_def iterfind_def client_def
  py_float_def example_lib_def decimal_value_def digit_of_def
  module_of_def appliance_of_def

lemma escape_not_Nil: "s \<noteq> [] \<Longrightarrow> escape_illegal_xml_characters s \<noteq> []"
  by (induction s rule: escape_illegal_xml_characters.induct) auto

lemma escape_last: "s \<noteq> [] \<Longrightarrow> last (escape_illegal_xml_characters s) = last s"
proof (induction s rule: escape_illegal_xml_characters.induct)
  case 1
  then show ?case by simp
next
  case (2 c)
  then show ?case by simp
next
  case (3 c d cs)
  show ?case
  proof (cases "c = CHR ''&'' \<and> \<not> entity_start d")
    case True
    show ?thesis
    proof (cases cs)
      case Nil
      with True show ?thesis by simp
    next
      case (Cons e es)
      then have "cs \<noteq> []" by simp
      from 3(1) [OF True this] True Cons show ?thesis
        by (simp add: escape_not_Nil)
    qed
  next
    case False
    from 3(2) [OF False] False show ?thesis
      by (auto simp: escape_not_Nil)
  qed
qed

lemma py_in_sublist: "py_in sub s \<longleftrightarrow> sublist sub s"
  by (induction s) (auto simp: sublist_Cons_right)

lemma request_unfold:
  "request L s w command retry =
     (let w' = w\<lparr>sent := sent w @ [endpoint s @ command]\<rparr>
      in case responses w (length (sent w)) of
           TimeoutError \<Rightarrow>
             if retry < 1 then (Inr None, w') else request L s w' command (retry - 1)
         | ClientError \<Rightarrow> (Inr None, w')
         | Response resp \<Rightarrow>
             (case resp of
                None \<Rightarrow> (Inl ResponseError, w')
              | Some result \<Rightarrow>
                  if result = [] \<or> result = errorCode_0 then (Inr None, w')
                  else (case fromstring L (escape_illegal_xml_characters result) of
                          None \<Rightarrow> (Inl ParseError, w')
                        | Some tree \<Rightarrow> (Inr (Some tree), w'))))"
  by (subst request.simps) (simp add: Let_def)

lemma connect_unfold:
  "connect s w retry =
     (let w' = w\<lparr>sent := sent w @ [endpoint s @ PLUGWISE_PING_ENDPOINT]\<rparr>
      in case responses w (length (sent w)) of
           TimeoutError \<Rightarrow>
             if retry < 1 then (Inr False, w') else connect s w' (retry - 1)
         | ClientError \<Rightarrow>
             if retry < 1 then (Inr False, w') else connect s w' (retry - 1)
         | Response resp \<Rightarrow>
             (case resp of
                None \<Rightarrow> (Inl ResponseError, w')
              | Some result \<Rightarrow> (Inr (py_in ''error'' result), w')))"
  by (subst connect.simps) (auto simp: Let_def split: attempt.splits option.splits)

text \<open>
  While the GETs time out and retries are left, \<^verbatim>\<open>request\<close> goes on with one retry
  less per GET.
\<close>

lemma request_timeouts:
  "\<forall>j<k. responses w (length (sent w) + j) = TimeoutError \<Longrightarrow> int k \<le> max 0 retry \<Longrightarrow>
     request L s w command retry
       = request L s (w\<lparr>sent := sent w @ replicate k (endpoint s @ command)\<rparr>) command
           (retry - int k)"
proof (induction k arbitrary: w retry)
  case 0
  then show ?case by simp
next
  case (Suc k)
  let ?w' = "w\<lparr>sent := sent w @ [endpoint s @ command]\<rparr>"
  from Suc.prems have first: "responses w (length (sent w)) = TimeoutError"
    by (metis add.right_neutral zero_less_Suc)
  from Suc.prems have retry: "\<not> retry < 1" by simp
  have step: "request L s w command retry = request L s ?w' command (retry - 1)"
    by (subst request.simps) (simp add: first retry Let_def)
  have rest: "\<forall>j<k. responses ?w' (length (sent ?w') + j) = TimeoutError"
    using Suc.prems(1) by (auto simp: less_Suc_eq_0_disj)
  have le: "int k \<le> max 0 (retry - 1)"
    using Suc.prems(2) by simp
  have "request L s ?w' command (retry - 1)
          = request L s (?w'\<lparr>sent := sent ?w' @ replicate k (endpoint s @ command)\<rparr>) command
              (retry - 1 - int k)"
    by (rule Suc.IH [OF rest le])
  with step show ?case
    by (simp add: replicate_append_same algebra_simps)
qed

text \<open>
  One call of \<^verbatim>\<open>request\<close> issues at least one GET and at most \<^verbatim>\<open>retry + 1\<close>, all to
  the same URL, and changes nothing else of the network.
\<close>

lemma request_sent_bound:
  "\<exists>m. 0 < m \<and> int m \<le> max 0 retry + 1 \<and>
       snd (request L s w command retry)
         = w\<lparr>sent := sent w @ replicate m (endpoint s @ command)\<rparr>"
proof (induction L s w command retry rule: request.induct)
  case (1 L s w command retry)
  let ?url = "endpoint s @ command"
  let ?w' = "w\<lparr>sent := sent w @ [?url]\<rparr>"
  show ?case
  proof (cases "responses w (length (sent w)) = TimeoutError \<and> \<not> retry < 1")
    case True
    then have step: "request L s w command retry = request L s ?w' command (retry - 1)"
      by (subst request.simps) (simp add: Let_def)
    from 1 [OF refl refl _ _] True
    obtain m where m: "0 < m" "int m \<le> max 0 (retry - 1) + 1"
      "snd (request L s ?w' command (retry - 1)) = ?w'\<lparr>sent := sent ?w' @ replicate m ?url\<rparr>"
      by auto
    from step m(3) have "snd (request L s w command retry)
        = w\<lparr>sent := sent w @ replicate (Suc m) ?url\<rparr>"
      by simp
    moreover from m(2) True have "int (Suc m) \<le> max 0 retry + 1" by simp
    ultimately show ?thesis by blast
  next
    case False
    then have "snd (request L s w command retry) = w\<lparr>sent := sent w @ replicate 1 ?url\<rparr>"
      by (subst request.simps) (auto simp: Let_def split: attempt.splits option.splits)
    moreover have "int 1 \<le> max 0 retry + 1" by simp
    ultimately show ?thesis by blast
  qed
qed

lemma update_domain_objects_world:
  "\<exists>m. 0 < m \<and> m \<le> 4 \<and>
       snd (snd (update_domain_objects L (s, w)))
         = w\<lparr>sent := sent w @ replicate m (endpoint s @ PLUGWISE_DOMAIN_OBJECTS_ENDPOINT)\<rparr>"
proof -
  from request_sent_bound [of 3 L s w PLUGWISE_DOMAIN_OBJECTS_ENDPOINT]
  obtain m where m: "0 < m" "int m \<le> max 0 3 + 1"
    "snd (request L s w PLUGWISE_DOMAIN_OBJECTS_ENDPOINT 3)
       = w\<lparr>sent := sent w @ replicate m (endpoint s @ PLUGWISE_DOMAIN_OBJECTS_ENDPOINT)\<rparr>"
    by blast
  from m(3) have "snd (snd (update_domain_objects L (s, w)))
       = w\<lparr>sent := sent w @ replicate m (endpoint s @ PLUGWISE_DOMAIN_OBJECTS_ENDPOINT)\<rparr>"
    by (auto simp: update_domain_objects_def split: prod.splits sum.splits)
  with m(1,2) show ?thesis by auto
qed

lemma update_domain_objects_state:
  "fst (snd (update_domain_objects L (s, w))) =
     (case fst (request L s w PLUGWISE_DOMAIN_OBJECTS_ENDPOINT 3) of
        Inl e \<Rightarrow> s
      | Inr r \<Rightarrow> s\<lparr>domain_objects := r\<rparr>)"
  by (auto simp: update_domain_objects_def split: prod.splits sum.splits)

text \<open>
  \<^verbatim>\<open>connect\<close> retries timeouts and client errors alike. What it returns is decided by
  the first GET that is answered, or by the GET that uses up the retries.
\<close>

lemma connect_failures:
  "\<forall>j<k. responses w (length (sent w) + j) \<in> {TimeoutError, ClientError} \<Longrightarrow>
     int k \<le> max 0 retry \<Longrightarrow>
     connect s w retry
       = connect s (w\<lparr>sent := sent w @ replicate k (endpoint s @ PLUGWISE_PING_ENDPOINT)\<rparr>)
           (retry - int k)"
proof (induction k arbitrary: w retry)
  case 0
  then show ?case by simp
next
  case (Suc k)
  let ?w' = "w\<lparr>sent := sent w @ [endpoint s @ PLUGWISE_PING_ENDPOINT]\<rparr>"
  from Suc.prems have first: "responses w (length (sent w)) \<in> {TimeoutError, ClientError}"
    by (metis add.right_neutral zero_less_Suc)
  from Suc.prems have retry: "\<not> retry < 1" by simp
  from first retry have step: "connect s w retry = connect s ?w' (retry - 1)"
    by (subst connect_unfold) (auto simp: Let_def)
  have rest: "\<forall>j<k. responses ?w' (length (sent ?w') + j) \<in> {TimeoutError, ClientError}"
    using Suc.prems(1) by (auto simp: less_Suc_eq_0_disj)
  have le: "int k \<le> max 0 (retry - 1)"
    using Suc.prems(2) by simp
  have "connect s ?w' (retry - 1)
          = connect s (?w'\<lparr>sent := sent ?w' @ replicate k (endpoint s @ PLUGWISE_PING_ENDPOINT)\<rparr>)
              (retry - 1 - int k)"
    by (rule Suc.IH [OF rest le])
  with step show ?case
    by (simp add: replicate_append_same algebra_simps)
qed

lemma connect_result:
  assumes "\<forall>j<k. responses w (length (sent w) + j) \<in> {TimeoutError, ClientError}"
      and "int k \<le> max 0 retry"
      and "responses w (length (sent w) + k) = a"
      and "a \<in> {TimeoutError, ClientError} \<longrightarrow> int k = max 0 retry"
  shows "fst (connect s w retry) =
           (case a of
              Response None \<Rightarrow> Inl ResponseError
            | Response (Some body) \<Rightarrow> Inr (sublist ''error'' body)
            | _ \<Rightarrow> Inr False)"
proof -
  let ?w = "w\<lparr>sent := sent w @ replicate k (endpoint s @ PLUGWISE_PING_ENDPOINT)\<rparr>"
  have run: "connect s w retry = connect s ?w (retry - int k)"
    by (rule connect_failures [OF assms(1,2)])
  have at: "responses ?w (length (sent ?w)) = a"
    using assms(3) by simp
  have "fst (connect s ?w (retry - int k)) =
           (case a of
              Response None \<Rightarrow> Inl ResponseError
            | Response (Some body) \<Rightarrow> Inr (sublist ''error'' body)
            | _ \<Rightarrow> Inr False)"
    using at assms(2,4)
    by (subst connect_unfold) (auto simp: Let_def py_in_sublist split: attempt.splits option.splits)
  with run show ?thesis by simp
qed

text \<open>The legacy locator selects the \<^verbatim>\<open>then\<close> actions of the active rules.\<close>

lemma concat_map_if_single: "concat (map (\<lambda>e. if P e then [e] else []) xs) = filter P xs"
  by (induction xs) auto

lemma select_Child:
  "select (Child t) ys = concat (map (\<lambda>e. filter (\<lambda>c. tag c = t) (children e)) ys)"
  by (simp add: concat_map_if_single)

lemma concat_map_filter_if:
  "concat (map f (filter P xs)) = concat (map (\<lambda>d. if P d then f d else []) xs)"
  by (induction xs) auto

lemma concat_map_concat:
  "concat (map f (concat (map g xs))) = concat (map (\<lambda>d. concat (map f (g d))) xs)"
  by (induction xs) auto

lemma then_directives_alt:
  "then_directives r =
     concat (map (\<lambda>w. filter (\<lambda>t. tag t = ''then'') (children w))
       (concat (map (\<lambda>d. filter (\<lambda>w. tag w = ''when'') (children d))
          (filter (\<lambda>d. tag d = ''directives'') (children r)))))"
proof -
  have inner: "\<And>w. (if tag w = ''when''
                  then concat (map (\<lambda>t. if tag t = ''then'' then [t] else []) (children w))
                  else [])
             = (if tag w = ''when'' then filter (\<lambda>t. tag t = ''then'') (children w) else [])"
    by (simp add: concat_map_if_single)
  show ?thesis
    unfolding then_directives_def inner
    by (simp only: concat_map_concat concat_map_filter_if [symmetric])
qed

lemma select_descend:
  "select (Child ''then'') (select (Child ''when'') (select (Child ''directives'') ys))
   = concat (map then_directives ys)"
proof (induction ys)
  case Nil
  then show ?case by simp
next
  case (Cons y ys)
  have "select (Child ''then'') (select (Child ''when'') (select (Child ''directives'') (y # ys)))
        = then_directives y
          @ select (Child ''then'') (select (Child ''when'') (select (Child ''directives'') ys))"
    unfolding select_Child then_directives_alt by simp
  with Cons show ?case by simp
qed

lemma iterfind_legacy:
  "iterfind x [Child ''rule'', Tag_eq ''active'' ''true'',
                 Child ''directives'', Child ''when'', Child ''then''] = active_then x"
proof -
  have "select (Tag_eq ''active'' ''true'') (select (Child ''rule'') [x])
        = filter rule_active (children x)"
    unfolding select_Child
    by (auto simp: concat_map_if_single rule_active_def list_ex_iff intro!: filter_cong)
  then show ?thesis
    by (simp add: iterfind_def active_then_def select_descend del: select.simps)
qed

text \<open>
  Every call of \<^verbatim>\<open>request\<close> has a deciding GET: the first one that does not time
  out, or else the one that uses up the retries.
\<close>

lemma request_deciding_get:
  "\<exists>k. int k \<le> max 0 retry \<and>
       (\<forall>j<k. responses w (length (sent w) + j) = TimeoutError) \<and>
       (responses w (length (sent w) + k) = TimeoutError \<longrightarrow> int k = max 0 retry)"
proof -
  define P where
    "P j \<longleftrightarrow> responses w (length (sent w) + j) \<noteq> TimeoutError \<or> int j = max 0 retry" for j
  define k where "k = (LEAST j. P j)"
  have top: "P (nat (max 0 retry))"
    by (simp add: P_def)
  then have Pk: "P k"
    unfolding k_def by (rule LeastI)
  have "k \<le> nat (max 0 retry)"
    unfolding k_def using top by (rule Least_le)
  then have "int k \<le> max 0 retry" by simp
  moreover have "responses w (length (sent w) + j) = TimeoutError" if "j < k" for j
  proof -
    from that have "\<not> P j"
      unfolding k_def by (rule not_less_Least)
    then show ?thesis by (simp add: P_def)
  qed
  moreover from Pk
  have "responses w (length (sent w) + k) = TimeoutError \<longrightarrow> int k = max 0 retry"
    by (auto simp: P_def)
  ultimately show ?thesis by blast
qed

text \<open>
  The two lookups meet: for a module that names a point log by a non-empty id without
  apostrophe, and an appliance that logs a measurement under that id, the temperature is
  the number read from the measurement.
\<close>

lemma temperature_lookup_chain:
  assumes "i \<noteq> []" and "CHR 0x27 \<notin> set i" and "py_float L (Some t) = Inr v"
  shows "get_current_temperature L
           (s\<lparr>domain_objects := Some (Element doc [] None None
                [module_of ''temperature'' i, appliance_of ''temperature'' i (Some t)])\<rparr>)
         = Inr (Some v)"
  using assms
  by (simp add: get_current_temperature_def get_point_log_id_def
      get_measurement_from_point_log_def locate_def elem_find_def iterfind_def
      module_of_def appliance_of_def)

subsection \<open>The result of \<^verbatim>\<open>request\<close>\<close>

text \<open>
  C1. Take a call of \<^verbatim>\<open>request\<close> whose first \<open>k\<close> GETs time out, with \<open>k\<close> within the
  retry budget, and let \<open>a\<close> be the outcome of the next GET; when \<open>a\<close> is a timeout too,
  it is the one that exhausts the budget. Suppose the call ends without a transport
  error other than a timeout (\<open>a\<close> is no \<^verbatim>\<open>ClientError\<close>, its body can be read) and the
  parser accepts the sanitised body. Then the call returns a value, and this value is
  \<^verbatim>\<open>None\<close> exactly when every GET timed out, the body is empty, or the body is
  \<^verbatim>\<open>{"errorCode":0}\<close>; for every other body it is the tree parsed from the sanitised body.
\<close>

theorem request_null_iff:
  assumes timeouts: "\<forall>j<k. responses w (length (sent w) + j) = TimeoutError"
      and budget: "int k \<le> max 0 retry"
      and last: "responses w (length (sent w) + k) = a"
      and exhausted: "a = TimeoutError \<longrightarrow> int k = max 0 retry"
      and transport: "a \<noteq> ClientError" "a \<noteq> Response None"
      and parsed: "\<forall>body. a = Response (Some body) \<and> body \<noteq> [] \<and> body \<noteq> errorCode_0
                     \<longrightarrow> fromstring L (escape_illegal_xml_characters body) \<noteq> None"
  shows "\<exists>r. fst (request L s w command retry) = Inr r \<and>
             (r = None \<longleftrightarrow>
                a = TimeoutError \<or> a = Response (Some []) \<or> a = Response (Some errorCode_0)) \<and>
             (\<forall>body. a = Response (Some body) \<and> body \<noteq> [] \<and> body \<noteq> errorCode_0
                \<longrightarrow> r = fromstring L (escape_illegal_xml_characters body))"
proof -
  let ?w = "w\<lparr>sent := sent w @ replicate k (endpoint s @ command)\<rparr>"
  have run: "request L s w command retry = request L s ?w command (retry - int k)"
    by (rule request_timeouts [OF timeouts budget])
  have at: "responses ?w (length (sent ?w)) = a"
    using last by simp
  show ?thesis
  proof (cases a)
    case TimeoutError
    with exhausted budget have "retry - int k < 1" by auto
    with TimeoutError at have "fst (request L s ?w command (retry - int k)) = Inr None"
      by (subst request.simps) (simp add: Let_def)
    with run TimeoutError show ?thesis by simp
  next
    case ClientError
    with transport show ?thesis by simp
  next
    case (Response resp)
    with transport obtain body where body: "a = Response (Some body)"
      by (cases resp) auto
    show ?thesis
    proof (cases "body = [] \<or> body = errorCode_0")
      case True
      with body at have "fst (request L s ?w command (retry - int k)) = Inr None"
        by (subst request.simps) (auto simp: Let_def)
      with run body True show ?thesis by auto
    next
      case False
      with parsed body obtain tree
        where tree: "fromstring L (escape_illegal_xml_characters body) = Some tree"
        by auto
      with body at False have "fst (request L s ?w command (retry - int k)) = Inr (Some tree)"
        by (subst request.simps) (auto simp: Let_def)
      with run body False tree show ?thesis by auto
    qed
  qed
qed

text \<open>One timeout, then the document \<^verbatim>\<open><a/>\<close>: the second GET is parsed and returned.\<close>

theorem request_null_iff_witness:
  "responses world_retry (length (sent world_retry)) = TimeoutError \<and>
   int 1 \<le> max 0 3 \<and>
   responses world_retry (length (sent world_retry) + 1) = Response (Some ''<a/>'') \<and>
   fromstring example_lib (escape_illegal_xml_characters ''<a/>'') \<noteq> None \<and>
   fst (request example_lib (client None) world_retry PLUGWISE_DOMAIN_OBJECTS_ENDPOINT 3)
     = Inr (Some (Element ''a'' [] None None []))"
proof -
  have esc: "escape_illegal_xml_characters ''<a/>'' = ''<a/>''"
    by simp
  have h0: "responses world_retry (length (sent world_retry)) = TimeoutError"
    by (simp add: world_retry_def world_of_def)
  then have h1: "\<forall>j<1. responses world_retry (length (sent world_retry) + j) = TimeoutError"
    by simp
  have h2: "int 1 \<le> max 0 3" by simp
  have h3: "responses world_retry (length (sent world_retry) + 1) = Response (Some ''<a/>'')"
    by (simp add: world_retry_def world_of_def)
  have h4: "\<forall>body. Response (Some ''<a/>'') = Response (Some body) \<and> body \<noteq> []
               \<and> body \<noteq> errorCode_0
               \<longrightarrow> fromstring example_lib (escape_illegal_xml_characters body) \<noteq> None"
    by (simp add: esc example_lib_def)
  have lit: "''<a/>'' \<noteq> errorCode_0" by (simp add: errorCode_0_def)
  from request_null_iff [of 1 world_retry 3 "Response (Some ''<a/>'')" example_lib
      "client None" PLUGWISE_DOMAIN_OBJECTS_ENDPOINT, OF h1 h2 h3 _ _ _ h4] lit
  have "fst (request example_lib (client None) world_retry PLUGWISE_DOMAIN_OBJECTS_ENDPOINT 3)
          = Inr (fromstring example_lib (escape_illegal_xml_characters ''<a/>''))"
    by auto
  with h0 h2 h3 show ?thesis by (simp add: esc example_lib_def)
qed

subsection \<open>Refreshing the snapshot\<close>

text \<open>
  A client that holds a snapshot refreshes it and receives an empty body:
  \<^verbatim>\<open>request\<close> returns \<^verbatim>\<open>None\<close>, and the snapshot held afterwards is not the earlier one.
\<close>

theorem update_drops_snapshot:
  "fst (request example_lib (client (Some snapshot_42)) world_empty_body
          PLUGWISE_DOMAIN_OBJECTS_ENDPOINT 3) = Inr None \<and>
   domain_objects (fst (snd (update_domain_objects example_lib
                               (client (Some snapshot_42), world_empty_body))))
     \<noteq> domain_objects (client (Some snapshot_42))"
proof -
  have "fst (request example_lib (client (Some snapshot_42)) world_empty_body
               PLUGWISE_DOMAIN_OBJECTS_ENDPOINT 3) = Inr None"
    by (subst request.simps) (simp add: world_empty_body_def world_of_def Let_def)
  then show ?thesis
    by (simp add: update_domain_objects_state client_def)
qed

text \<open>
  C2, amended. When \<^verbatim>\<open>request\<close> returns \<^verbatim>\<open>None\<close>, the snapshot stored after
  \<^verbatim>\<open>update_domain_objects\<close> is \<^verbatim>\<open>None\<close>, whatever was stored before. When \<^verbatim>\<open>request\<close>
  raises instead, the client is left as it was, earlier snapshot included.
\<close>

theorem update_domain_objects_null:
  "(fst (request L s w PLUGWISE_DOMAIN_OBJECTS_ENDPOINT 3) = Inr None
      \<longrightarrow> domain_objects (fst (snd (update_domain_objects L (s, w)))) = None) \<and>
   (fst (request L s w PLUGWISE_DOMAIN_OBJECTS_ENDPOINT 3) = Inl e
      \<longrightarrow> fst (snd (update_domain_objects L (s, w))) = s)"
  by (simp add: update_domain_objects_state)

theorem update_domain_objects_null_witness:
  "fst (request example_lib (client (Some snapshot_42)) world_empty_body
          PLUGWISE_DOMAIN_OBJECTS_ENDPOINT 3) = Inr None \<and>
   domain_objects (fst (snd (update_domain_objects example_lib
                               (client (Some snapshot_42), world_empty_body)))) = None \<and>
   fst (request example_lib (client (Some snapshot_42)) world_broken_body
          PLUGWISE_DOMAIN_OBJECTS_ENDPOINT 3) = Inl ResponseError \<and>
   fst (snd (update_domain_objects example_lib (client (Some snapshot_42), world_broken_body)))
     = client (Some snapshot_42)"
proof -
  have a: "fst (request example_lib (client (Some snapshot_42)) world_empty_body
               PLUGWISE_DOMAIN_OBJECTS_ENDPOINT 3) = Inr None"
    by (subst request.simps) (simp add: world_empty_body_def world_of_def Let_def)
  have b: "fst (request example_lib (client (Some snapshot_42)) world_broken_body
               PLUGWISE_DOMAIN_OBJECTS_ENDPOINT 3) = Inl ResponseError"
    by (subst request.simps) (simp add: world_broken_body_def world_of_def Let_def)
  from a b
    update_domain_objects_null [of example_lib "client (Some snapshot_42)" world_empty_body]
    update_domain_objects_null [of example_lib "client (Some snapshot_42)" world_broken_body
      ResponseError]
  show ?thesis by simp
qed

subsection \<open>Ampersand sanitisation\<close>

text \<open>
  C3 (the code departs from the claim). Every ampersand that is not followed by a letter
  or \<^verbatim>\<open>#\<close> should become \<^verbatim>\<open>&amp;\<close>. In \<^verbatim>\<open>A && B\<close> the second ampersand is followed
  by a blank, yet it is copied as it is: the match of the first ampersand has consumed it.
\<close>

theorem escape_double_ampersand:
  "escape_illegal_xml_characters ''A && B'' = ''A &amp;& B''"
  by (simp add: entity_start_def)

subsection \<open>The throttle\<close>

text \<open>
  C4. Two calls of \<^verbatim>\<open>throttle_update_domain_objects\<close> on one client, the first of which
  is not itself throttled. The first call stores its clock reading \<open>m1\<close> and fetches the
  domain objects once (one call of \<^verbatim>\<open>request\<close>: one to four GETs of that URL). If the
  second call reads a time less than 2 seconds after \<open>m1\<close>, it does nothing: client,
  snapshot, stored time and network stay as the first call left them, so the pair has
  fetched once. If it reads a time at least 2 seconds after \<open>m1\<close>, it fetches again.
\<close>

theorem throttle_pair:
  assumes first: "throttle_time s = None \<or>
                  (\<exists>t. throttle_time s = Some t \<and> MIN_TIME_BETWEEN_UPDATES \<le> n1 - t)"
      and call1: "throttle_update_domain_objects L n1 m1 (s, w) = (r1, s1, w1)"
      and call2: "throttle_update_domain_objects L n2 m2 (s1, w1) = (r2, s2, w2)"
  shows "(s1, w1) = snd (update_domain_objects L (s\<lparr>throttle_time := Some m1\<rparr>, w)) \<and>
         throttle_time s1 = Some m1 \<and>
         (\<exists>k. 0 < k \<and> k \<le> 4 \<and>
              w1 = w\<lparr>sent := sent w @ replicate k (endpoint s @ PLUGWISE_DOMAIN_OBJECTS_ENDPOINT)\<rparr>) \<and>
         (n2 - m1 < MIN_TIME_BETWEEN_UPDATES \<longrightarrow> r2 = Inr () \<and> s2 = s1 \<and> w2 = w1) \<and>
         (MIN_TIME_BETWEEN_UPDATES \<le> n2 - m1 \<longrightarrow>
            (s2, w2) = snd (update_domain_objects L (s1\<lparr>throttle_time := Some m2\<rparr>, w1)) \<and>
            (\<exists>k. 0 < k \<and> k \<le> 4 \<and>
                 w2 = w1\<lparr>sent := sent w1
                          @ replicate k (endpoint s @ PLUGWISE_DOMAIN_OBJECTS_ENDPOINT)\<rparr>))"
proof -
  have fetch: "snd (throttle_update_domain_objects L n m (c, v))
                 = snd (update_domain_objects L (c\<lparr>throttle_time := Some m\<rparr>, v))"
    if "throttle_time c = None \<or> (\<exists>t. throttle_time c = Some t \<and> MIN_TIME_BETWEEN_UPDATES \<le> n - t)"
    for n m c v
    using that
    by (auto simp: throttle_update_domain_objects_def split: prod.splits sum.splits)
  have keeps: "throttle_time (fst (snd (update_domain_objects L (c, v)))) = throttle_time c"
              "endpoint (fst (snd (update_domain_objects L (c, v)))) = endpoint c"
    for c v
    by (auto simp: update_domain_objects_state split: sum.splits)
  from fetch [OF first, of m1 w] call1
  have one: "(s1, w1) = snd (update_domain_objects L (s\<lparr>throttle_time := Some m1\<rparr>, w))"
    by simp
  then have s1: "s1 = fst (snd (update_domain_objects L (s\<lparr>throttle_time := Some m1\<rparr>, w)))"
    and w1: "w1 = snd (snd (update_domain_objects L (s\<lparr>throttle_time := Some m1\<rparr>, w)))"
    by (metis fst_conv, metis snd_conv)
  from s1 have t1: "throttle_time s1 = Some m1" and e1: "endpoint s1 = endpoint s"
    by (simp_all add: keeps)
  from w1 update_domain_objects_world [of L "s\<lparr>throttle_time := Some m1\<rparr>" w]
  have gets1: "\<exists>k. 0 < k \<and> k \<le> 4 \<and>
      w1 = w\<lparr>sent := sent w @ replicate k (endpoint s @ PLUGWISE_DOMAIN_OBJECTS_ENDPOINT)\<rparr>"
    by simp
  have skip: "r2 = Inr () \<and> s2 = s1 \<and> w2 = w1" if "n2 - m1 < MIN_TIME_BETWEEN_UPDATES"
    using that call2 t1 by (simp add: throttle_update_domain_objects_def)
  have again: "(s2, w2) = snd (update_domain_objects L (s1\<lparr>throttle_time := Some m2\<rparr>, w1)) \<and>
      (\<exists>k. 0 < k \<and> k \<le> 4 \<and>
         w2 = w1\<lparr>sent := sent w1 @ replicate k (endpoint s @ PLUGWISE_DOMAIN_OBJECTS_ENDPOINT)\<rparr>)"
    if late: "MIN_TIME_BETWEEN_UPDATES \<le> n2 - m1"
  proof -
    from t1 late have "throttle_time s1 = None \<or>
        (\<exists>t. throttle_time s1 = Some t \<and> MIN_TIME_BETWEEN_UPDATES \<le> n2 - t)"
      by simp
    from fetch [OF this, of m2 w1] call2
    have two: "(s2, w2) = snd (update_domain_objects L (s1\<lparr>throttle_time := Some m2\<rparr>, w1))"
      by simp
    then have "w2 = snd (snd (update_domain_objects L (s1\<lparr>throttle_time := Some m2\<rparr>, w1)))"
      by (metis snd_conv)
    with update_domain_objects_world [of L "s1\<lparr>throttle_time := Some m2\<rparr>" w1] e1 two
    show ?thesis by simp
  qed
  from one t1 gets1 skip again show ?thesis by blast
qed

text \<open>
  A new client fetches at time 0 and stores the reading 10. A call 1.999989 seconds
  later changes nothing; a call exactly 2 seconds later fetches again (here the network
  only times out by then: four GETs, and the snapshot becomes \<^verbatim>\<open>None\<close>).
\<close>

theorem throttle_pair_witness:
  "throttle_time (client None) = None \<and>
   throttle_update_domain_objects example_lib 0 10 (client None, world_one_answer)
     = (Inr (),
        (client (Some (Element ''a'' [] None None [])))\<lparr>throttle_time := Some 10\<rparr>,
        world_one_answer\<lparr>sent := [''http://anna:80/core/domain_objects'']\<rparr>) \<and>
   1999999 - 10 < MIN_TIME_BETWEEN_UPDATES \<and>
   throttle_update_domain_objects example_lib 1999999 2000000
       ((client (Some (Element ''a'' [] None None [])))\<lparr>throttle_time := Some 10\<rparr>,
        world_one_answer\<lparr>sent := [''http://anna:80/core/domain_objects'']\<rparr>)
     = (Inr (),
        (client (Some (Element ''a'' [] None None [])))\<lparr>throttle_time := Some 10\<rparr>,
        world_one_answer\<lparr>sent := [''http://anna:80/core/domain_objects'']\<rparr>) \<and>
   MIN_TIME_BETWEEN_UPDATES \<le> 2000010 - 10 \<and>
   snd (throttle_update_domain_objects example_lib 2000010 2000020
       ((client (Some (Element ''a'' [] None None [])))\<lparr>throttle_time := Some 10\<rparr>,
        world_one_answer\<lparr>sent := [''http://anna:80/core/domain_objects'']\<rparr>))
     = ((client None)\<lparr>throttle_time := Some 2000020\<rparr>,
        world_one_answer\<lparr>sent := replicate 5 ''http://anna:80/core/domain_objects''\<rparr>)"
proof -
  let ?s1 = "(client (Some (Element ''a'' [] None None [])))\<lparr>throttle_time := Some 10\<rparr>"
  let ?w1 = "world_one_answer\<lparr>sent := [''http://anna:80/core/domain_objects'']\<rparr>"
  let ?early = "throttle_update_domain_objects example_lib 1999999 2000000 (?s1, ?w1)"
  let ?late = "throttle_update_domain_objects example_lib 2000010 2000020 (?s1, ?w1)"
  have none: "throttle_time (client None) = None"
    by (simp add: client_def)
  then have first: "throttle_time (client None) = None
                 \<or> (\<exists>t. throttle_time (client None) = Some t \<and> MIN_TIME_BETWEEN_UPDATES \<le> 0 - t)"
    by simp
  have call1: "throttle_update_domain_objects example_lib 0 10 (client None, world_one_answer)
                 = (Inr (), ?s1, ?w1)"
    by (simp add: throttle_update_domain_objects_def update_domain_objects_def request_unfold
        client_def world_one_answer_def world_of_def example_lib_def
        PLUGWISE_DOMAIN_OBJECTS_ENDPOINT_def errorCode_0_def Let_def)
  have early: "?early = (fst ?early, fst (snd ?early), snd (snd ?early))"
    and late: "?late = (fst ?late, fst (snd ?late), snd (snd ?late))"
    by simp_all
  have refetch: "snd (update_domain_objects example_lib (?s1\<lparr>throttle_time := Some 2000020\<rparr>, ?w1))
        = ((client None)\<lparr>throttle_time := Some 2000020\<rparr>,
           world_one_answer\<lparr>sent := replicate 5 ''http://anna:80/core/domain_objects''\<rparr>)"
    by (simp add: update_domain_objects_def request_unfold
        client_def world_one_answer_def world_of_def example_lib_def
        PLUGWISE_DOMAIN_OBJECTS_ENDPOINT_def errorCode_0_def Let_def eval_nat_numeral)
  have lt: "1999999 - 10 < MIN_TIME_BETWEEN_UPDATES"
    and ge: "MIN_TIME_BETWEEN_UPDATES \<le> 2000010 - 10"
    by (simp_all add: MIN_TIME_BETWEEN_UPDATES_def)
  from throttle_pair [OF first call1 early] lt
  have "fst ?early = Inr () \<and> fst (snd ?early) = ?s1 \<and> snd (snd ?early) = ?w1"
    by blast
  then have a: "?early = (Inr (), ?s1, ?w1)"
    by (metis early)
  from throttle_pair [OF first call1 late] ge
  have "(fst (snd ?late), snd (snd ?late))
          = snd (update_domain_objects example_lib (?s1\<lparr>throttle_time := Some 2000020\<rparr>, ?w1))"
    by blast
  with refetch have b: "snd ?late
        = ((client None)\<lparr>throttle_time := Some 2000020\<rparr>,
           world_one_answer\<lparr>sent := replicate 5 ''http://anna:80/core/domain_objects''\<rparr>)"
    by simp
  from none call1 lt a ge b show ?thesis
    by (intro conjI)
qed

subsection \<open>Temperatures\<close>

text \<open>
  The snapshot that consists of one thermostat appliance holding the point log of type
  \<^verbatim>\<open>temperature\<close>, id \<^verbatim>\<open>42\<close>, measurement \<^verbatim>\<open>19.5\<close>: the id is looked up under
  \<^verbatim>\<open>module/services\<close>, of which this snapshot has none, and the result is \<^verbatim>\<open>None\<close>.
\<close>

theorem get_current_temperature_appliance_only:
  "py_float example_lib (Some ''19.5'') = Inr (39 / 2) \<and>
   get_current_temperature example_lib (client (Some snapshot_appliance)) = Inr None"
  by (simp add: eval_defs snapshot_appliance_def)

text \<open>
  C5, amended. For the snapshot that holds, beside that appliance, a module whose service
  with log type \<^verbatim>\<open>temperature\<close> names the point log \<^verbatim>\<open>42\<close>,
  \<^verbatim>\<open>get_current_temperature\<close> returns the value of \<^verbatim>\<open>float("19.5")\<close>.
\<close>

theorem get_current_temperature_scenario:
  "float_of_str L ''19.5'' = Some v \<Longrightarrow>
     get_current_temperature L (s\<lparr>domain_objects := Some snapshot_42\<rparr>) = Inr (Some v)"
  by (simp add: get_current_temperature_def get_point_log_id_def
      get_measurement_from_point_log_def locate_def elem_find_def iterfind_def py_float_def
      snapshot_42_def module_of_def appliance_of_def)

theorem get_current_temperature_scenario_witness:
  "float_of_str example_lib ''19.5'' = Some (39 / 2) \<and>
   get_current_temperature example_lib (client (Some snapshot_42)) = Inr (Some (39 / 2))"
  using get_current_temperature_scenario [of example_lib "39 / 2" "client None"]
  by (simp add: example_lib_def decimal_value_def digit_of_def client_def)

text \<open>
  A point log whose id is the empty string: \<^verbatim>\<open>get_point_log_id\<close> finds it,
  \<^verbatim>\<open>get_measurement_from_point_log\<close> returns \<^verbatim>\<open>None\<close> for it, and
  \<^verbatim>\<open>get_current_temperature\<close> returns \<^verbatim>\<open>None\<close>: the empty id does not pass
  \<^verbatim>\<open>if current_temp_point_log_id:\<close>.
\<close>

theorem current_temperature_empty_id:
  "get_point_log_id example_lib (Some snapshot_empty_id) ''temperature'' = Inr (Some []) \<and>
   get_measurement_from_point_log example_lib (Some snapshot_empty_id) [] = Inr None \<and>
   get_current_temperature example_lib (client (Some snapshot_empty_id)) = Inr None"
  by (simp add: eval_defs snapshot_empty_id_def)

text \<open>
  C6, amended. When \<^verbatim>\<open>get_point_log_id\<close> finds a non-empty id for \<^verbatim>\<open>temperature\<close> and
  \<^verbatim>\<open>get_measurement_from_point_log\<close> returns \<^verbatim>\<open>None\<close> for it,
  \<^verbatim>\<open>get_current_temperature\<close> does not return: \<^verbatim>\<open>float(None)\<close> raises \<^verbatim>\<open>TypeError\<close>.
  In the same situation for \<^verbatim>\<open>schedule_temperature\<close>, \<^verbatim>\<open>get_schedule_temperature\<close>
  returns \<^verbatim>\<open>None\<close>.
\<close>

theorem absent_measurement:
  "(get_point_log_id L (domain_objects s) ''temperature'' = Inr (Some i) \<and> i \<noteq> [] \<and>
    get_measurement_from_point_log L (domain_objects s) i = Inr None
      \<longrightarrow> get_current_temperature L s = Inl TypeError) \<and>
   (get_point_log_id L (domain_objects s) ''schedule_temperature'' = Inr (Some j) \<and>
    get_measurement_from_point_log L (domain_objects s) j = Inr None
      \<longrightarrow> get_schedule_temperature L s = Inr None)"
  by (simp add: get_current_temperature_def get_schedule_temperature_def py_float_def)

theorem absent_measurement_witness:
  "get_point_log_id example_lib (Some snapshot_no_log) ''temperature'' = Inr (Some ''42'') \<and>
   get_measurement_from_point_log example_lib (Some snapshot_no_log) ''42'' = Inr None \<and>
   get_current_temperature example_lib (client (Some snapshot_no_log)) = Inl TypeError \<and>
   get_point_log_id example_lib (Some snapshot_no_log) ''schedule_temperature''
     = Inr (Some ''43'') \<and>
   get_measurement_from_point_log example_lib (Some snapshot_no_log) ''43'' = Inr None \<and>
   get_schedule_temperature example_lib (client (Some snapshot_no_log)) = Inr None"
proof -
  have a: "get_point_log_id example_lib (Some snapshot_no_log) ''temperature'' = Inr (Some ''42'')"
    by (simp add: eval_defs snapshot_no_log_def)
  have b: "get_measurement_from_point_log example_lib (Some snapshot_no_log) ''42'' = Inr None"
    by (simp add: eval_defs snapshot_no_log_def)
  have c: "get_point_log_id example_lib (Some snapshot_no_log) ''schedule_temperature''
             = Inr (Some ''43'')"
    by (simp add: eval_defs snapshot_no_log_def)
  have d: "get_measurement_from_point_log example_lib (Some snapshot_no_log) ''43'' = Inr None"
    by (simp add: eval_defs snapshot_no_log_def)
  from a b c d
    absent_measurement [of example_lib "client (Some snapshot_no_log)" "''42''" "''43''"]
  show ?thesis by (simp add: client_def)
qed

text \<open>
  A point log whose id is the empty string and whose measurement reads \<^verbatim>\<open>19.5\<close>: the id
  is found, the measurement text is located and parses as a number, and yet
  \<^verbatim>\<open>get_current_temperature\<close> returns \<^verbatim>\<open>None\<close>.
\<close>

theorem temperature_empty_id_located:
  "get_point_log_id example_lib (Some snapshot_empty_id_log) ''temperature'' = Inr (Some []) \<and>
   get_measurement_from_point_log example_lib (Some snapshot_empty_id_log) []
     = Inr (Some ''19.5'') \<and>
   py_float example_lib (Some ''19.5'') = Inr (39 / 2) \<and>
   get_current_temperature example_lib (client (Some snapshot_empty_id_log)) = Inr None"
  by (simp add: eval_defs snapshot_empty_id_log_def)

text \<open>
  C7, amended. When \<^verbatim>\<open>get_point_log_id\<close> finds a non-empty id for \<^verbatim>\<open>temperature\<close>
  (for \<^verbatim>\<open>schedule_temperature\<close>), and the measurement text located for that id parses as
  the number \<open>v\<close>, then \<^verbatim>\<open>get_current_temperature\<close> (\<^verbatim>\<open>get_schedule_temperature\<close>)
  returns \<open>v\<close>. Each returns \<^verbatim>\<open>None\<close> when \<^verbatim>\<open>get_point_log_id\<close> finds no id.
\<close>

theorem temperature_getters:
  "(get_point_log_id L (domain_objects s) ''temperature'' = Inr (Some i) \<and> i \<noteq> [] \<and>
    get_measurement_from_point_log L (domain_objects s) i = Inr (Some t) \<and>
    py_float L (Some t) = Inr v
      \<longrightarrow> get_current_temperature L s = Inr (Some v)) \<and>
   (get_point_log_id L (domain_objects s) ''schedule_temperature'' = Inr (Some j) \<and> j \<noteq> [] \<and>
    get_measurement_from_point_log L (domain_objects s) j = Inr (Some u) \<and>
    py_float L (Some u) = Inr w
      \<longrightarrow> get_schedule_temperature L s = Inr (Some w)) \<and>
   (get_point_log_id L (domain_objects s) ''temperature'' = Inr None
      \<longrightarrow> get_current_temperature L s = Inr None) \<and>
   (get_point_log_id L (domain_objects s) ''schedule_temperature'' = Inr None
      \<longrightarrow> get_schedule_temperature L s = Inr None)"
  by (auto simp: get_current_temperature_def get_schedule_temperature_def py_float_def)

theorem temperature_getters_witness:
  "get_point_log_id example_lib (Some snapshot_two) ''temperature'' = Inr (Some ''42'') \<and>
   get_measurement_from_point_log example_lib (Some snapshot_two) ''42'' = Inr (Some ''19.5'') \<and>
   py_float example_lib (Some ''19.5'') = Inr (39 / 2) \<and>
   get_current_temperature example_lib (client (Some snapshot_two)) = Inr (Some (39 / 2)) \<and>
   get_point_log_id example_lib (Some snapshot_two) ''schedule_temperature''
     = Inr (Some ''43'') \<and>
   get_measurement_from_point_log example_lib (Some snapshot_two) ''43'' = Inr (Some ''21'') \<and>
   py_float example_lib (Some ''21'') = Inr 21 \<and>
   get_schedule_temperature example_lib (client (Some snapshot_two)) = Inr (Some 21) \<and>
   get_point_log_id example_lib (Some snapshot_appliance) ''temperature'' = Inr None \<and>
   get_current_temperature example_lib (client (Some snapshot_appliance)) = Inr None \<and>
   get_point_log_id example_lib (Some snapshot_appliance) ''schedule_temperature'' = Inr None \<and>
   get_schedule_temperature example_lib (client (Some snapshot_appliance)) = Inr None"
proof -
  have a: "get_point_log_id example_lib (Some snapshot_two) ''temperature'' = Inr (Some ''42'')"
    "get_measurement_from_point_log example_lib (Some snapshot_two) ''42'' = Inr (Some ''19.5'')"
    "py_float example_lib (Some ''19.5'') = Inr (39 / 2)"
    by (simp_all add: eval_defs snapshot_two_def)
  have b: "get_point_log_id example_lib (Some snapshot_two) ''schedule_temperature''
             = Inr (Some ''43'')"
    "get_measurement_from_point_log example_lib (Some snapshot_two) ''43'' = Inr (Some ''21'')"
    "py_float example_lib (Some ''21'') = Inr 21"
    by (simp_all add: eval_defs snapshot_two_def)
  have c: "get_point_log_id example_lib (Some snapshot_appliance) ''temperature'' = Inr None"
    "get_point_log_id example_lib (Some snapshot_appliance) ''schedule_temperature'' = Inr None"
    by (simp_all add: eval_defs snapshot_appliance_def)
  have d: "domain_objects (client x) = x" for x
    by (simp add: client_def)
  from a b
    temperature_getters [of example_lib "client (Some snapshot_two)" "''42''" "''19.5''"
      "39 / 2" "''43''" "''21''" 21]
  have two: "get_current_temperature example_lib (client (Some snapshot_two)) = Inr (Some (39 / 2))"
    "get_schedule_temperature example_lib (client (Some snapshot_two)) = Inr (Some 21)"
    by (simp_all add: d)
  from c temperature_getters [of example_lib "client (Some snapshot_appliance)"]
  have none: "get_current_temperature example_lib (client (Some snapshot_appliance)) = Inr None"
    "get_schedule_temperature example_lib (client (Some snapshot_appliance)) = Inr None"
    by (simp_all add: d)
  from a b c two none show ?thesis by simp
qed

subsection \<open>The legacy preset\<close>

text \<open>
  C8. With the legacy flag set and a snapshot stored, \<^verbatim>\<open>get_current_preset\<close> looks at
  the first \<^verbatim>\<open>then\<close> action of the active rules. It returns \<^verbatim>\<open>"none"\<close> when there is no
  such action or the action has no \<^verbatim>\<open>icon\<close> attribute, and the value of that attribute
  otherwise. In particular it returns \<^verbatim>\<open>"none"\<close> when no rule is active.
\<close>

theorem get_current_preset_legacy:
  assumes "legacy_anna s" and "domain_objects s = Some x"
  shows "get_current_preset s =
           Inr (Some (case active_then x of
                        [] \<Rightarrow> ''none''
                      | th # _ \<Rightarrow>
                          (case map_of (attrib th) ''icon'' of
                             None \<Rightarrow> ''none''
                           | Some icon \<Rightarrow> icon))) \<and>
         ((\<forall>r \<in> set (children x). \<not> rule_active r)
            \<longrightarrow> get_current_preset s = Inr (Some ''none''))"
proof -
  have none: "active_then x = []" if "\<forall>r \<in> set (children x). \<not> rule_active r"
    using that by (simp add: active_then_def)
  from assms show ?thesis
    by (auto simp: get_current_preset_def elem_find_def iterfind_legacy none
        split: list.splits option.splits)
qed

text \<open>
  Of an inactive rule with icon \<^verbatim>\<open>away\<close> and an active rule with icon \<^verbatim>\<open>home\<close>, the
  preset is \<^verbatim>\<open>home\<close>; with the inactive rule alone it is \<^verbatim>\<open>none\<close>.
\<close>

theorem get_current_preset_legacy_witness:
  "legacy_anna (legacy_client (Some snapshot_rules)) \<and>
   domain_objects (legacy_client (Some snapshot_rules)) = Some snapshot_rules \<and>
   get_current_preset (legacy_client (Some snapshot_rules)) = Inr (Some ''home'') \<and>
   children snapshot_idle = [rule_of ''false'' [(''icon'', ''away'')]] \<and>
   \<not> rule_active (rule_of ''false'' [(''icon'', ''away'')]) \<and>
   get_current_preset (legacy_client (Some snapshot_idle)) = Inr (Some ''none'')"
proof -
  have a: "legacy_anna (legacy_client (Some snapshot_rules))"
          "domain_objects (legacy_client (Some snapshot_rules)) = Some snapshot_rules"
          "legacy_anna (legacy_client (Some snapshot_idle))"
          "domain_objects (legacy_client (Some snapshot_idle)) = Some snapshot_idle"
    by (simp_all add: legacy_client_def)
  have b: "active_then snapshot_rules = [Element ''then'' [(''icon'', ''home'')] None None []]"
    by (simp add: active_then_def then_directives_def rule_active_def snapshot_rules_def
        rule_of_def if_text_def)
  have c: "children snapshot_idle = [rule_of ''false'' [(''icon'', ''away'')]]"
    by (simp add: snapshot_idle_def)
  have d: "\<not> rule_active (rule_of ''false'' [(''icon'', ''away'')])"
    by (simp add: rule_active_def rule_of_def if_text_def)
  from c d have e: "\<forall>r \<in> set (children snapshot_idle). \<not> rule_active r"
    by simp
  from get_current_preset_legacy [OF a(1,2)] b
  have home: "get_current_preset (legacy_client (Some snapshot_rules)) = Inr (Some ''home'')"
    by simp
  from get_current_preset_legacy [OF a(3,4)] e
  have idle: "get_current_preset (legacy_client (Some snapshot_idle)) = Inr (Some ''none'')"
    by blast
  from a c d home idle show ?thesis by simp
qed

subsection \<open>Connecting\<close>

text \<open>
  C9 (the code departs from the claim). \<^verbatim>\<open>connect\<close> should never raise. When the GET
  is answered and reading the body fails, the exception of \<^verbatim>\<open>resp.text()\<close> leaves
  \<^verbatim>\<open>connect\<close>: the read stands after the \<^verbatim>\<open>try\<close> block, and no retry is made.
\<close>

theorem connect_body_read_fails:
  "fst (connect (client None) world_broken_body 2) = Inl ResponseError"
  by (subst connect.simps) (simp add: world_broken_body_def world_of_def Let_def)

subsection \<open>An ampersand at the end\<close>

text \<open>
  C10. When the input ends in an ampersand, so does the output: the pattern needs a
  character after the ampersand, hence the last ampersand is never rewritten.
\<close>

theorem escape_trailing_ampersand:
  "s \<noteq> [] \<Longrightarrow> last s = CHR ''&'' \<Longrightarrow>
     escape_illegal_xml_characters s \<noteq> [] \<and> last (escape_illegal_xml_characters s) = CHR ''&''"
  by (simp add: escape_not_Nil escape_last)

theorem escape_trailing_ampersand_witness:
  "''A & B&'' \<noteq> [] \<and> last ''A & B&'' = CHR ''&'' \<and>
   escape_illegal_xml_characters ''A & B&'' = ''A &amp; B&'' \<and>
   last (escape_illegal_xml_characters ''A & B&'') = CHR ''&''"
  using escape_trailing_ampersand [of "''A & B&''"] by (simp add: entity_start_def)

end
